theory Spec2Isabelle
  imports Main "HOL-Library.Sublist"
begin

section \<open>JavaScript strings\<close>

text \<open>
  A JavaScript string is modelled as a \<open>string\<close>. The characters that the code inspects
  (the braces, the dollar sign and the four characters that make a replacement pattern with
  it) are ASCII; text outside ASCII stands as its UTF-8 bytes. The functions below are the
  parts of \<open>String.prototype\<close> that the formatter calls, written after ECMA-262.
\<close>

text \<open>\<open>s.indexOf(pat)\<close>: the first position at which \<open>pat\<close> occurs in \<open>s\<close>.\<close>

fun indexOf :: "string \<Rightarrow> string \<Rightarrow> nat option" where
  "indexOf [] pat = (if pat = [] then Some 0 else None)"
| "indexOf (c # cs) pat =
     (if prefix pat (c # cs) then Some 0 else map_option Suc (indexOf cs pat))"

text \<open>
  \<open>GetSubstitution\<close> of ECMA-262 for a string pattern (no captures): in the replacement
  text \<open>$$\<close> stands for a dollar sign, \<open>$&\<close> for the matched text, \<open>$`\<close> for the text
  before the match and \<open>$'\<close> for the text after it; every other character, and a dollar
  sign followed by anything else, is copied.
\<close>

fun getSubstitution :: "string \<Rightarrow> string \<Rightarrow> string \<Rightarrow> string \<Rightarrow> string" where
  "getSubstitution matched preceding following [] = []"
| "getSubstitution matched preceding following [c] = [c]"
| "getSubstitution matched preceding following (c # d # r) =
     (if c = CHR ''$'' \<and> d = CHR ''$'' then CHR ''$'' # getSubstitution matched preceding following r
      else if c = CHR ''$'' \<and> d = CHR ''&'' then matched @ getSubstitution matched preceding following r
      else if c = CHR ''$'' \<and> d = CHR 0x60 then preceding @ getSubstitution matched preceding following r
      else if c = CHR ''$'' \<and> d = CHR 0x27 then following @ getSubstitution matched preceding following r
      else c # getSubstitution matched preceding following (d # r))"

text \<open>
  \<open>s.replace(pat, repl)\<close> with a string pattern: only the first occurrence of \<open>pat\<close> is
  replaced, by the expansion of \<open>repl\<close>; without an occurrence \<open>s\<close> is returned.
\<close>

definition stringReplace :: "string \<Rightarrow> string \<Rightarrow> string \<Rightarrow> string" where
  "stringReplace s pat repl =
     (case indexOf s pat of
        None \<Rightarrow> s
      | Some pos \<Rightarrow>
          (let preceding = take pos s; following = drop (pos + length pat) s
           in preceding @ getSubstitution pat preceding following repl @ following))"

text \<open>
  The regular expression \<open>/\{([^}]+)\}/\<close> tried at the start of \<open>s\<close>: an opening brace, the
  longest run of characters other than a closing brace, which must not be empty, and a closing
  brace. The result is the matched text and what follows it.
\<close>

definition placeholderAt :: "string \<Rightarrow> (string \<times> string) option" where
  "placeholderAt s =
     (case s of
        [] \<Rightarrow> None
      | c # cs \<Rightarrow>
          (let body = takeWhile (\<lambda>x. x \<noteq> CHR ''}'') cs;
               rest = dropWhile (\<lambda>x. x \<noteq> CHR ''}'') cs
           in if c = CHR ''{'' \<and> body \<noteq> [] \<and> rest \<noteq> []
              then Some (c # body @ [CHR ''}''], tl rest) else None))"

text \<open>
  \<open>template.match(/\{([^}]+)\}/g) || []\<close>: all matches from left to right, each search
  resuming where the previous match ended; one character is skipped where there is no match.
\<close>

function matchPlaceholders :: "string \<Rightarrow> string list" where
  "matchPlaceholders [] = []"
| "matchPlaceholders (c # cs) =
     (case placeholderAt (c # cs) of
        Some (p, rest) \<Rightarrow> p # matchPlaceholders rest
      | None \<Rightarrow> matchPlaceholders cs)"
  by pat_completeness auto
termination
  by (relation "measure length")
     (auto simp: placeholderAt_def Let_def less_Suc_eq_le
           intro: le_trans [OF diff_le_self length_dropWhile_le]
           split: if_splits)

section \<open>The template formatter\<close>

subsection \<open>\<open>formatCommand\<close> of the Node entry point\<close>

text \<open>
  The loop \<open>for (let i = 0; i < placeholders.length; i++)\<close>, with the running \<open>result\<close>
  as state: \<open>result = result.replace(placeholder, args[i])\<close> when \<open>i < args.length\<close>.
\<close>

function replaceLoop :: "string list \<Rightarrow> string list \<Rightarrow> nat \<Rightarrow> string \<Rightarrow> string" where
  "replaceLoop placeholders args i result =
     (if i < length placeholders then
        replaceLoop placeholders args (i + 1)
          (if i < length args
           then stringReplace result (placeholders ! i) (args ! i)
           else result)
      else result)"
  by pat_completeness auto
termination
  by (relation "measure (\<lambda>(placeholders, args, i, result). length placeholders - i)") auto

declare replaceLoop.simps [simp del]

definition formatCommand :: "string \<Rightarrow> string list \<Rightarrow> string" where
  "formatCommand template args =
     (if CHR ''{'' \<in> set template
      then replaceLoop (matchPlaceholders template) args 0 template
      else template)"

subsection \<open>\<open>formatCommand\<close> of \<open>shared/utils.ts\<close>\<close>

text \<open>\<open>placeholder.replace(/[{}]/g, '')\<close>: every brace is removed.\<close>

definition clean :: "string \<Rightarrow> string" where
  "clean placeholder = filter (\<lambda>c. c \<noteq> CHR ''{'' \<and> c \<noteq> CHR ''}'') placeholder"

text \<open>
  \<open>placeholders.forEach((placeholder, i) => ...)\<close>: the search text is rebuilt as
  \<open>`{${clean}}`\<close>.
\<close>

function replaceLoop_utils :: "string list \<Rightarrow> string list \<Rightarrow> nat \<Rightarrow> string \<Rightarrow> string" where
  "replaceLoop_utils placeholders args i result =
     (if i < length placeholders then
        replaceLoop_utils placeholders args (i + 1)
          (if i < length args
           then stringReplace result (''{'' @ clean (placeholders ! i) @ ''}'') (args ! i)
           else result)
      else result)"
  by pat_completeness auto
termination
  by (relation "measure (\<lambda>(placeholders, args, i, result). length placeholders - i)") auto

declare replaceLoop_utils.simps [simp del]

definition formatCommand_utils :: "string \<Rightarrow> string list \<Rightarrow> string" where
  "formatCommand_utils template args =
     (if CHR ''{'' \<in> set template
      then replaceLoop_utils (matchPlaceholders template) args 0 template
      else template)"

subsection \<open>Positional substitution as the specification words it\<close>

text \<open>
  The contract \<open>format(template, args)\<close> of the specification, not taken from the code: the
  template is scanned from left to right for placeholder tokens; the i-th token met is
  replaced with the i-th argument while arguments remain, and a token without an argument is
  left verbatim. Argument text is copied as it is and is not scanned again.
\<close>

function format_spec :: "string \<Rightarrow> string list \<Rightarrow> string" where
  "format_spec [] args = []"
| "format_spec (c # cs) args =
     (case placeholderAt (c # cs) of
        Some (p, rest) \<Rightarrow>
          (case args of
             [] \<Rightarrow> p @ format_spec rest []
           | a # as \<Rightarrow> a @ format_spec rest as)
      | None \<Rightarrow> c # format_spec cs args)"
  by pat_completeness auto
termination
  by (relation "measure (\<lambda>(template, args). length template)")
     (auto simp: placeholderAt_def Let_def less_Suc_eq_le
           intro: le_trans [OF diff_le_self length_dropWhile_le]
           split: if_splits)




fun steps :: "string list \<Rightarrow> string list \<Rightarrow> string \<Rightarrow> string" where
  "steps (p # ps) (a # as) result = steps ps as (stringReplace result p a)"
| "steps ps as result = result"

fun steps_utils :: "string list \<Rightarrow> string list \<Rightarrow> string \<Rightarrow> string" where
  "steps_utils (p # ps) (a # as) result =
     steps_utils ps as (stringReplace result (''{'' @ clean p @ ''}'') a)"
| "steps_utils ps as result = result"

section \<open>The command table\<close>

text \<open>
  \<open>CommandConfig\<close>, \<open>ToolCommands\<close> and \<open>AllCommands\<close> of the Node entry point. An object
  is a list of its own properties in insertion order; an optional field is an \<open>option\<close>.
\<close>

record CommandConfig =
  command :: "string option"
  description :: "string option"
  handler :: "string option"
  telemetry_event :: "string option"
  package_manager_sensitive :: "bool option"
  aliases :: "string list option"

type_synonym ToolCommands = "(string \<times> CommandConfig) list"

type_synonym AllCommands = "(string \<times> ToolCommands) list"

type_synonym NaturalLanguageCommands = "(string \<times> (string \<times> string) list) list"

text \<open>
  Reading \<open>obj[key]\<close> on an object built from YAML gives the own property when there is
  one, else whatever \<open>Object.prototype\<close> holds under that name (a function or object, hence
  truthy), else \<open>undefined\<close>.
\<close>

datatype 'a property = Own 'a | Inherited | Undefined

definition objectPrototypeNames :: "string list" where
  "objectPrototypeNames =
     [''constructor'', ''__defineGetter__'', ''__defineSetter__'', ''hasOwnProperty'',
      ''__lookupGetter__'', ''__lookupSetter__'', ''isPrototypeOf'', ''propertyIsEnumerable'',
      ''toString'', ''valueOf'', ''__proto__'', ''toLocaleString'']"

definition getProp :: "(string \<times> 'a) list \<Rightarrow> string \<Rightarrow> 'a property" where
  "getProp obj key =
     (case map_of obj key of
        Some v \<Rightarrow> Own v
      | None \<Rightarrow> if key \<in> set objectPrototypeNames then Inherited else Undefined)"

text \<open>Truthiness of an optional string field: present and not the empty string.\<close>

definition truthy :: "string option \<Rightarrow> string option" where
  "truthy v = (case v of None \<Rightarrow> None | Some s \<Rightarrow> if s = [] then None else Some s)"

text \<open>\<open>xs.join(sep)\<close>.\<close>

fun arrayJoin :: "string \<Rightarrow> string list \<Rightarrow> string" where
  "arrayJoin sep [] = []"
| "arrayJoin sep [x] = x"
| "arrayJoin sep (x # y # r) = x @ sep @ arrayJoin sep (y # r)"

section \<open>The shell executor\<close>

text \<open>
  What becomes of the child process that \<open>execSync\<close> starts for a command line: it exits with
  a status; or it ends without one, by a signal (also when Node.js terminates it because its
  output exceeds \<open>maxBuffer\<close>); or it cannot be started at all. The child is the shell
  running the command line, so a command whose binary is missing or not executable is an
  exit of the shell with status 127 or 126, and a launch failure is the shell itself not
  starting. \<open>Exited\<close> carries the status,
  the standard output and the standard error; \<open>Terminated\<close> the message of the error that
  \<open>execSync\<close> raises and the output so far; \<open>LaunchFailure\<close> the message of the launch error.
\<close>

datatype child_outcome =
    Exited int string string
  | Terminated string string string
  | LaunchFailure string

record exec_error =
  message :: string
  err_stdout :: "string option"
  err_stderr :: "string option"

text \<open>
  \<open>child_process.execSync(command, { encoding: 'utf8' })\<close> of Node.js, by its documented
  contract: it returns the standard output when the child exits with status 0 and throws
  otherwise; the thrown error carries a message and, when the child ran, its output. For a
  non-zero status the message is \<open>Command failed:\<close> with the command line and, on a new
  line, the standard error if there is any.
\<close>

definition commandFailed :: "string \<Rightarrow> string \<Rightarrow> string" where
  "commandFailed cmd err =
     ''Command failed: '' @ cmd @ (if err = [] then [] else CHR 0x0A # err)"

definition execSync :: "(string \<Rightarrow> child_outcome) \<Rightarrow> string \<Rightarrow> exec_error + string" where
  "execSync run cmd =
     (case run cmd of
        Exited status out err \<Rightarrow>
          if status = 0 then Inr out
          else Inl \<lparr>message = commandFailed cmd err,
                    err_stdout = Some out, err_stderr = Some err\<rparr>
      | Terminated msg out err \<Rightarrow>
          Inl \<lparr>message = msg, err_stdout = Some out, err_stderr = Some err\<rparr>
      | LaunchFailure msg \<Rightarrow>
          Inl \<lparr>message = msg, err_stdout = None, err_stderr = None\<rparr>)"

record CommandResult =
  type :: string
  success :: "bool option"
  stdout :: "string option"
  stderr :: "string option"
  error :: "string option"

text \<open>\<open>v || ''\<close> for an optional string.\<close>

definition orEmpty :: "string option \<Rightarrow> string" where
  "orEmpty v = (case v of None \<Rightarrow> [] | Some s \<Rightarrow> s)"

definition executeShellCommand :: "(string \<Rightarrow> child_outcome) \<Rightarrow> string \<Rightarrow> CommandResult" where
  "executeShellCommand run cmd =
     (case execSync run cmd of
        Inr out \<Rightarrow>
          \<lparr>type = ''shell'', success = Some True, stdout = Some out,
           stderr = None, error = None\<rparr>
      | Inl err \<Rightarrow>
          \<lparr>type = ''shell'', success = Some False, stdout = Some (orEmpty (err_stdout err)),
           stderr = Some (orEmpty (err_stderr err)), error = Some (message err)\<rparr>)"

section \<open>Loading the tables\<close>

text \<open>
  The effects of a run that are recorded, in order: calls of the logger, of \<open>console.error\<close>
  and of \<open>console.log\<close>, the three help printers with their arguments, the call of
  \<open>execSync\<close> with its command line, writes to the standard streams, and the two subcommands
  that are handed to other modules. Probing the file system, creating the mock directory in
  test mode, and what \<open>execSync\<close> itself passes on of the child's standard error are not
  recorded.
\<close>

datatype event =
    LoggerError string
  | LoggerDebug string
  | ConsoleError string
  | ConsoleLog string
  | PrintGeneralHelp AllCommands
  | PrintToolHelp string ToolCommands
  | PrintCommandHelp string string CommandConfig
  | ExecSync string
  | StdoutWrite string
  | StderrWrite string
  | ProgramParse
  | UninstallVibes "string list"

text \<open>
  How \<open>main\<close> ends: it returns (the process then ends with code 0), or it calls
  \<open>process.exit\<close> with a code, or the run is handed to the \<open>install-alias\<close> action or to
  the uninstaller, or a lookup reached a property of \<open>Object.prototype\<close>, after which the
  behaviour depends on the built-in objects of the runtime and is not followed further.
\<close>

datatype ending = Return | Exit nat | Delegated | BuiltinProperty

text \<open>
  The surroundings of a run. The first five fields are the directories that \<open>getSharedDir\<close>
  computes from \<open>__dirname\<close> with \<open>path.resolve\<close>; \<open>isTestEnv\<close> is its test on \<open>NODE_ENV\<close>
  and \<open>JEST_WORKER_ID\<close>. \<open>readFileSync\<close> and \<open>yaml.load\<close> either throw an error, given by its
  message (\<open>Inl\<close>), or return; a falsy result of \<open>yaml.load\<close> is \<open>None\<close>, any other is read at
  the type the source casts it to. \<open>runChild\<close> tells what becomes of the child process for a
  command line.
\<close>

record env =
  localShared :: string
  projectShared :: string
  packageShared :: string
  mockDir :: string
  embeddedDir :: string
  isTestEnv :: bool
  existsSync :: "string \<Rightarrow> bool"
  pathJoin :: "string \<Rightarrow> string \<Rightarrow> string"
  readFileSync :: "string \<Rightarrow> string + string"
  yamlLoadCommands :: "string \<Rightarrow> string + AllCommands option"
  yamlLoadPhrases :: "string \<Rightarrow> string + NaturalLanguageCommands option"
  runChild :: "string \<Rightarrow> child_outcome"

definition getSharedDir :: "env \<Rightarrow> event list \<times> string" where
  "getSharedDir env =
     (if existsSync env (localShared env) then
        ([LoggerDebug (''Found shared directory at '' @ localShared env)], localShared env)
      else if existsSync env (projectShared env) then
        ([LoggerDebug (''Found shared directory at '' @ projectShared env)], projectShared env)
      else if existsSync env (packageShared env) then
        ([LoggerDebug (''Found shared directory at '' @ packageShared env)], packageShared env)
      else if isTestEnv env then ([], mockDir env)
      else
        ([LoggerError (''Could not find shared directory in: '' @ localShared env @ '', '' @
                       projectShared env @ '', '' @ packageShared env),
          LoggerDebug (''Falling back to embedded directory: '' @ embeddedDir env)],
         embeddedDir env))"

text \<open>The local constants \<open>commandsFile\<close> and \<open>nlCommandsFile\<close> of the two loaders.\<close>

definition commandsFile :: "env \<Rightarrow> string" where
  "commandsFile env = pathJoin env (snd (getSharedDir env)) ''commands.yaml''"

definition nlCommandsFile :: "env \<Rightarrow> string" where
  "nlCommandsFile env = pathJoin env (snd (getSharedDir env)) ''vibe_language_commands.yaml''"

definition loadCommands :: "env \<Rightarrow> event list \<times> AllCommands" where
  "loadCommands env =
     (let found = fst (getSharedDir env)
      in case readFileSync env (commandsFile env) of
           Inl msg \<Rightarrow> (found @ [LoggerError (''Failed to load commands: '' @ msg)], [])
         | Inr fileContents \<Rightarrow>
             (case yamlLoadCommands env fileContents of
                Inl msg \<Rightarrow> (found @ [LoggerError (''Failed to load commands: '' @ msg)], [])
              | Inr None \<Rightarrow> (found, [])
              | Inr (Some table) \<Rightarrow> (found, table)))"

definition loadNaturalLanguageCommands :: "env \<Rightarrow> event list \<times> NaturalLanguageCommands" where
  "loadNaturalLanguageCommands env =
     (let found = fst (getSharedDir env)
      in case readFileSync env (nlCommandsFile env) of
           Inl msg \<Rightarrow>
             (found @ [LoggerError (''Failed to load natural language commands: '' @ msg)], [])
         | Inr fileContents \<Rightarrow>
             (case yamlLoadPhrases env fileContents of
                Inl msg \<Rightarrow>
                  (found @ [LoggerError (''Failed to load natural language commands: '' @ msg)],
                   [])
              | Inr None \<Rightarrow> (found, [])
              | Inr (Some table) \<Rightarrow> (found, table)))"

section \<open>The top-level flow\<close>

definition CLI_VERSION :: string where
  "CLI_VERSION = ''0.1.0''"

text \<open>\<open>xs.length > i && xs[i] === s\<close>.\<close>

definition argIs :: "string list \<Rightarrow> nat \<Rightarrow> string \<Rightarrow> bool" where
  "argIs xs i s = (i < length xs \<and> xs ! i = s)"

text \<open>
  A first token that \<open>main\<close> neither hands to a subcommand nor answers with the general help
  or the version: it is looked up as a tool name.
\<close>

definition toolToken :: "string \<Rightarrow> bool" where
  "toolToken a0 =
     (a0 \<notin> set [''install-alias'', ''uninstall'', ''help'', ''--help'', ''--version'', ''-v''])"

text \<open>
  The last part of \<open>main\<close> (``Execute command''): a truthy \<open>handler\<close> wins, then a truthy
  \<open>command\<close> template is formatted with \<open>cliArgs.slice(2)\<close> and run, else the configuration
  is reported as invalid.
\<close>

definition execute :: "(string \<Rightarrow> child_outcome) \<Rightarrow> CommandConfig \<Rightarrow> string list \<Rightarrow> event list \<times> ending" where
  "execute run config args =
     (case truthy (handler config) of
        Some h \<Rightarrow> ([ConsoleLog (''Handler execution: '' @ h)], Return)
      | None \<Rightarrow>
          (case truthy (command config) of
             Some cmdTemplate \<Rightarrow>
               (let finalCommand = formatCommand cmdTemplate args;
                    result = executeShellCommand run finalCommand
                in if success result = Some True then
                     (ExecSync finalCommand #
                        (case truthy (stdout result) of
                           Some out \<Rightarrow> [StdoutWrite out] | None \<Rightarrow> []),
                      Return)
                   else
                     (ExecSync finalCommand #
                      ConsoleError (''Error executing command: '' @
                        (case error result of Some msg \<Rightarrow> msg | None \<Rightarrow> ''undefined'')) #
                        (case truthy (stderr result) of
                           Some err \<Rightarrow> [StderrWrite err] | None \<Rightarrow> []),
                      Exit 1))
           | None \<Rightarrow> ([ConsoleError ''Error: Invalid command configuration''], Exit 1)))"

text \<open>
  The middle part of \<open>main\<close> (``Standard command parsing''), entered with at least one
  token: \<open>toolName\<close> is \<open>cliArgs[0]\<close> and \<open>rest\<close> is \<open>cliArgs.slice(1)\<close>.
\<close>

definition standardCommand :: "(string \<Rightarrow> child_outcome) \<Rightarrow> AllCommands \<Rightarrow> string \<Rightarrow> string list \<Rightarrow> event list \<times> ending" where
  "standardCommand run commands toolName rest =
     (case getProp commands toolName of
        Undefined \<Rightarrow>
          ([LoggerError (''Unknown tool or command: '' @ arrayJoin '' '' (toolName # rest)),
            ConsoleError (''Error: Unknown tool or command: '' @ arrayJoin '' '' (toolName # rest)),
            PrintGeneralHelp commands], Exit 1)
      | Inherited \<Rightarrow> ([], BuiltinProperty)
      | Own toolCommands \<Rightarrow>
          (case rest of
             [] \<Rightarrow> ([PrintToolHelp toolName toolCommands], Return)
           | commandName # args \<Rightarrow>
               if commandName = ''help'' then ([PrintToolHelp toolName toolCommands], Return)
               else
                 (case getProp toolCommands commandName of
                    Undefined \<Rightarrow>
                      ([LoggerError (''Unknown command: '' @ toolName @ '' '' @ commandName),
                        ConsoleError (''Error: Unknown command: '' @ toolName @ '' '' @ commandName),
                        PrintToolHelp toolName toolCommands], Exit 1)
                  | Inherited \<Rightarrow> ([], BuiltinProperty)
                  | Own config \<Rightarrow>
                      if argIs args 0 ''help''
                      then ([PrintCommandHelp toolName commandName config], Return)
                      else execute run config args)))"

text \<open>
  \<open>main\<close>, with \<open>cliArgs = process.argv.slice(2)\<close>. The events of loading come first in
  the trace of every run that loads the tables.
\<close>

definition main :: "env \<Rightarrow> string list \<Rightarrow> event list \<times> ending" where
  "main env cliArgs =
     (if argIs cliArgs 0 ''install-alias'' then ([ProgramParse], Delegated)
      else if argIs cliArgs 0 ''uninstall'' then ([UninstallVibes (drop 1 cliArgs)], Delegated)
      else
        (let (log1, commands) = loadCommands env;
             (log2, nlCommands) = loadNaturalLanguageCommands env;
             loaded = log1 @ log2
         in if commands = [] then
              (loaded @ [LoggerError ''Failed to load command definitions'',
                         ConsoleError ''Error: Failed to load command definitions''], Exit 1)
            else
              (case cliArgs of
                 [] \<Rightarrow> (loaded @ [PrintGeneralHelp commands], Return)
               | a0 # rest \<Rightarrow>
                   if a0 = ''help'' \<or> a0 = ''--help'' then
                     (loaded @ [PrintGeneralHelp commands], Return)
                   else if a0 = ''--version'' \<or> a0 = ''-v'' then
                     (loaded @ [ConsoleLog CLI_VERSION], Return)
                   else
                     (let (events, how) = standardCommand (runChild env) commands a0 rest
                      in (loaded @ events, how)))))"

text \<open>The events of loading the two tables, as \<open>main\<close> produces them, and the events
  that are calls of the logger.\<close>

definition loadingLog :: "env \<Rightarrow> event list" where
  "loadingLog env = fst (loadCommands env) @ fst (loadNaturalLanguageCommands env)"

fun isLogging :: "event \<Rightarrow> bool" where
  "isLogging (LoggerError msg) = True"
| "isLogging (LoggerDebug msg) = True"
| "isLogging e = False"

section \<open>The resolver of \<open>shared/utils.ts\<close>\<close>

text \<open>
  \<open>CommandInfo\<close>, every field optional; the field names carry the prefix \<open>info_\<close> to keep
  them apart from those of the records above. The descriptor type is left open.
\<close>

record 'c CommandInfo =
  info_type :: "string option"
  info_tool :: "string option"
  info_command :: "string option"
  info_config :: "'c option"
  info_args :: "string list option"
  info_error :: "string option"
  info_showHelp :: "bool option"
  info_toolHelp :: "string option"
  info_commands :: "(string \<times> 'c) list option"
  info_commandHelp :: "bool option"
  info_success :: "bool option"
  info_result :: "string option"

definition noInfo :: "'c CommandInfo" where
  "noInfo =
     \<lparr>info_type = None, info_tool = None, info_command = None, info_config = None,
      info_args = None, info_error = None, info_showHelp = None, info_toolHelp = None,
      info_commands = None, info_commandHelp = None, info_success = None,
      info_result = None\<rparr>"

text \<open>
  \<open>parseCommandArgs\<close>; the result is \<open>None\<close> where a lookup reaches a property of
  \<open>Object.prototype\<close>.
\<close>

definition parseCommandArgs :: "string list \<Rightarrow> (string \<times> (string \<times> 'c) list) list \<Rightarrow> 'c CommandInfo option" where
  "parseCommandArgs args commands =
     (case args of
        [] \<Rightarrow> Some (noInfo\<lparr>info_error := Some ''No command specified'',
                            info_showHelp := Some True\<rparr>)
      | toolName # rest \<Rightarrow>
          if toolName = ''--version'' \<or> toolName = ''-v'' then
            Some (noInfo\<lparr>info_type := Some ''system'', info_command := Some ''version'',
                         info_args := Some []\<rparr>)
          else if toolName = ''help'' \<or> toolName = ''--help'' \<or> toolName = ''-h'' then
            Some (noInfo\<lparr>info_showHelp := Some True\<rparr>)
          else
            (case getProp commands toolName of
               Undefined \<Rightarrow>
                 Some (noInfo\<lparr>info_error := Some (''Unknown tool: '' @ toolName),
                              info_showHelp := Some True\<rparr>)
             | Inherited \<Rightarrow> None
             | Own toolCommands \<Rightarrow>
                 (case rest of
                    [] \<Rightarrow> Some (noInfo\<lparr>info_toolHelp := Some toolName,
                                        info_commands := Some toolCommands\<rparr>)
                  | commandName # remaining \<Rightarrow>
                      if commandName = ''help'' then
                        Some (noInfo\<lparr>info_toolHelp := Some toolName,
                                     info_commands := Some toolCommands\<rparr>)
                      else
                        (case getProp toolCommands commandName of
                           Undefined \<Rightarrow>
                             Some (noInfo\<lparr>info_error :=
                                            Some (''Unknown command: '' @ toolName @ '' '' @ commandName),
                                          info_toolHelp := Some toolName,
                                          info_commands := Some toolCommands\<rparr>)
                         | Inherited \<Rightarrow> None
                         | Own config \<Rightarrow>
                             if argIs remaining 0 ''help'' then
                               Some (noInfo\<lparr>info_commandHelp := Some True,
                                            info_tool := Some toolName,
                                            info_command := Some commandName,
                                            info_config := Some config\<rparr>)
                             else
                               Some (noInfo\<lparr>info_tool := Some toolName,
                                            info_command := Some commandName,
                                            info_config := Some config,
                                            info_args := Some remaining\<rparr>)))))"

section \<open>A small table and three environments\<close>

text \<open>
  One tool with three descriptors: \<open>status\<close> has a template and the alias \<open>st\<close>,
  \<open>checkout\<close> has a template with one placeholder, \<open>broken\<close> has neither a template nor a
  handler. In \<open>demoEnv\<close> the shared directory is found, both files load and every child
  exits with status 0 and no output; in \<open>missingEnv\<close> no directory is found, no file can be
  read and no child can be launched; in \<open>malformedEnv\<close> the files are read but \<open>yaml.load\<close>
  throws.
\<close>

definition demoGit :: ToolCommands where
  "demoGit =
     [(''status'',
       \<lparr>command = Some ''git status'', description = Some ''Show the working tree status'',
        handler = None, telemetry_event = None, package_manager_sensitive = None,
        aliases = Some [''st'']\<rparr>),
      (''checkout'',
       \<lparr>command = Some ''git checkout {0}'', description = Some ''Switch branches'',
        handler = None, telemetry_event = None, package_manager_sensitive = None,
        aliases = None\<rparr>),
      (''broken'',
       \<lparr>command = None, description = Some ''Neither template nor handler'',
        handler = None, telemetry_event = None, package_manager_sensitive = None,
        aliases = None\<rparr>)]"

definition demoCommands :: AllCommands where
  "demoCommands = [(''git'', demoGit)]"

definition demoEnv :: env where
  "demoEnv =
     \<lparr>localShared = ''/app/shared'',
      projectShared = ''/shared'',
      packageShared = ''/app/node-package/shared'',
      mockDir = ''/app/node-package/tests/mocks'',
      embeddedDir = ''/app/node-package/embedded'',
      isTestEnv = False,
      existsSync = (\<lambda>path. path = ''/app/shared''),
      pathJoin = (\<lambda>dir name. dir @ ''/'' @ name),
      readFileSync = (\<lambda>path. Inr []),
      yamlLoadCommands = (\<lambda>contents. Inr (Some demoCommands)),
      yamlLoadPhrases = (\<lambda>contents. Inr None),
      runChild = (\<lambda>cmd. Exited 0 [] [])\<rparr>"

definition missingEnv :: env where
  "missingEnv =
     \<lparr>localShared = ''/app/shared'',
      projectShared = ''/shared'',
      packageShared = ''/app/node-package/shared'',
      mockDir = ''/app/node-package/tests/mocks'',
      embeddedDir = ''/app/node-package/embedded'',
      isTestEnv = False,
      existsSync = (\<lambda>path. False),
      pathJoin = (\<lambda>dir name. dir @ ''/'' @ name),
      readFileSync = (\<lambda>path. Inl (''ENOENT: no such file or directory, open '' @ path)),
      yamlLoadCommands = (\<lambda>contents. Inr None),
      yamlLoadPhrases = (\<lambda>contents. Inr None),
      runChild = (\<lambda>cmd. LaunchFailure ''spawnSync /bin/sh ENOENT'')\<rparr>"

definition malformedEnv :: env where
  "malformedEnv =
     \<lparr>localShared = ''/app/shared'',
      projectShared = ''/shared'',
      packageShared = ''/app/node-package/shared'',
      mockDir = ''/app/node-package/tests/mocks'',
      embeddedDir = ''/app/node-package/embedded'',
      isTestEnv = False,
      existsSync = (\<lambda>path. path = ''/app/shared''),
      pathJoin = (\<lambda>dir name. dir @ ''/'' @ name),
      readFileSync = (\<lambda>path. Inr ''git: status: [''),
      yamlLoadCommands = (\<lambda>contents. Inl ''bad indentation of a mapping entry''),
      yamlLoadPhrases = (\<lambda>contents. Inl ''bad indentation of a mapping entry''),
      runChild = (\<lambda>cmd. Exited 0 [] [])\<rparr>"

section \<open>Properties of the formatter\<close>

subsection \<open>The empty argument list\<close>

lemma replaceLoop_no_args: "replaceLoop placeholders [] i result = result"
proof (induction placeholders "[] :: string list" i result rule: replaceLoop.induct)
  case (1 placeholders i result)
  then show ?case
    by (subst replaceLoop.simps) simp
qed

lemma replaceLoop_utils_no_args: "replaceLoop_utils placeholders [] i result = result"
proof (induction placeholders "[] :: string list" i result rule: replaceLoop_utils.induct)
  case (1 placeholders i result)
  then show ?case
    by (subst replaceLoop_utils.simps) simp
qed

text \<open>
  Claim C10. For every template, with or without placeholders, both formatters return the
  template unchanged when the argument list is empty: the test \<open>i < args.length\<close> fails in
  every round of the loop, so \<open>result\<close> is never assigned.
\<close>

theorem formatCommand_empty_args:
  "formatCommand template [] = template \<and> formatCommand_utils template [] = template"
  by (simp add: formatCommand_def formatCommand_utils_def
        replaceLoop_no_args replaceLoop_utils_no_args)

subsection \<open>Plain arguments are substituted positionally\<close>

lemma replaceLoop_steps:
  "replaceLoop placeholders args i result = steps (drop i placeholders) (drop i args) result"
proof (induction placeholders args i result rule: replaceLoop.induct)
  case (1 placeholders args i result)
  show ?case
  proof (cases "i < length placeholders")
    case False
    then show ?thesis by (subst replaceLoop.simps) simp
  next
    case True
    note inP = this
    show ?thesis
    proof (cases "i < length args")
      case True
      with inP 1 show ?thesis
        by (subst replaceLoop.simps)
           (simp add: Cons_nth_drop_Suc [symmetric])
    next
      case False
      with inP 1 show ?thesis
        by (subst replaceLoop.simps) (simp add: Cons_nth_drop_Suc [symmetric])
    qed
  qed
qed


lemma placeholderAt_SomeD:
  assumes "placeholderAt s = Some (p, rest)"
  shows "s = p @ rest"
    and "\<exists>body. p = CHR ''{'' # body @ [CHR ''}''] \<and> body \<noteq> [] \<and> CHR ''}'' \<notin> set body"
proof -
  from assms obtain c cs where s: "s = c # cs"
    by (cases s) (auto simp: placeholderAt_def)
  let ?P = "\<lambda>x. x \<noteq> CHR ''}''"
  from assms s have c: "c = CHR ''{''" and b: "takeWhile ?P cs \<noteq> []"
    and r: "dropWhile ?P cs \<noteq> []" and p: "p = c # takeWhile ?P cs @ [CHR ''}'']"
    and rest: "rest = tl (dropWhile ?P cs)"
    by (auto simp: placeholderAt_def Let_def split: if_splits)
  from r have "hd (dropWhile ?P cs) = CHR ''}''"
    using hd_dropWhile [of ?P cs] by auto
  with r have "dropWhile ?P cs = CHR ''}'' # tl (dropWhile ?P cs)"
    by (cases "dropWhile ?P cs") auto
  then have "cs = takeWhile ?P cs @ CHR ''}'' # rest"
    using takeWhile_dropWhile_id [of ?P cs] rest by metis
  with s p show "s = p @ rest" by simp
  have "CHR ''}'' \<notin> set (takeWhile ?P cs)"
    using set_takeWhileD by fastforce
  with b c p show "\<exists>body. p = CHR ''{'' # body @ [CHR ''}''] \<and> body \<noteq> [] \<and> CHR ''}'' \<notin> set body"
    by blast
qed















section \<open>Properties of the top-level flow\<close>

subsection \<open>The demonstration environment\<close>

lemma demo_getSharedDir:
  "getSharedDir demoEnv = ([LoggerDebug ''Found shared directory at /app/shared''], ''/app/shared'')"
  by (simp add: getSharedDir_def demoEnv_def)

lemma demo_read: "readFileSync demoEnv path = Inr []"
  by (simp add: demoEnv_def)

lemma demo_yaml: "yamlLoadCommands demoEnv contents = Inr (Some demoCommands)"
  by (simp add: demoEnv_def)

lemma demo_yaml_phrases: "yamlLoadPhrases demoEnv contents = Inr None"
  by (simp add: demoEnv_def)

lemma demo_loadCommands:
  "loadCommands demoEnv = ([LoggerDebug ''Found shared directory at /app/shared''], demoCommands)"
  by (simp add: loadCommands_def demo_getSharedDir demo_read demo_yaml)

lemma demo_loadNaturalLanguageCommands:
  "loadNaturalLanguageCommands demoEnv =
     ([LoggerDebug ''Found shared directory at /app/shared''], [])"
  by (simp add: loadNaturalLanguageCommands_def demo_getSharedDir demo_read demo_yaml_phrases)

lemma demo_loadingLog:
  "loadingLog demoEnv =
     [LoggerDebug ''Found shared directory at /app/shared'',
      LoggerDebug ''Found shared directory at /app/shared'']"
  by (simp add: loadingLog_def demo_loadCommands demo_loadNaturalLanguageCommands)

lemma demoCommands_nonempty: "demoCommands \<noteq> []"
  by (simp add: demoCommands_def)

lemma demo_git: "getProp demoCommands ''git'' = Own demoGit"
  by (simp add: getProp_def demoCommands_def)




lemma demo_st: "getProp demoGit ''st'' = Undefined"
  by (simp add: getProp_def demoGit_def objectPrototypeNames_def)

lemma demo_status_aliases:
  "map_option aliases (map_of demoGit ''status'') = Some (Some [''st''])"
  by (simp add: demoGit_def)

lemma demo_dash_h: "getProp demoCommands ''-h'' = Undefined"
  by (simp add: getProp_def demoCommands_def objectPrototypeNames_def)

lemma missing_getSharedDir:
  "getSharedDir missingEnv =
     ([LoggerError ''Could not find shared directory in: /app/shared, /shared, /app/node-package/shared'',
       LoggerDebug ''Falling back to embedded directory: /app/node-package/embedded''],
      ''/app/node-package/embedded'')"
  by (simp add: getSharedDir_def missingEnv_def)

lemma missing_commandsFile:
  "commandsFile missingEnv = ''/app/node-package/embedded/commands.yaml''"
  by (simp add: commandsFile_def missing_getSharedDir) (simp add: missingEnv_def)

lemma missing_read:
  "readFileSync missingEnv path = Inl (''ENOENT: no such file or directory, open '' @ path)"
  by (simp add: missingEnv_def)

lemma malformed_read:
  "readFileSync malformedEnv path = Inr ''git: status: [''"
  by (simp add: malformedEnv_def)

lemma malformed_getSharedDir:
  "getSharedDir malformedEnv =
     ([LoggerDebug ''Found shared directory at /app/shared''], ''/app/shared'')"
  by (simp add: getSharedDir_def malformedEnv_def)

lemma malformed_yaml:
  "yamlLoadCommands malformedEnv contents = Inl ''bad indentation of a mapping entry''"
  by (simp add: malformedEnv_def)

subsection \<open>Reaching the lookup and the execution\<close>

lemma main_standardCommand:
  assumes "toolToken tool" and "snd (loadCommands env) = commands" and "commands \<noteq> []"
  shows "main env (tool # rest) =
           (loadingLog env @ fst (standardCommand (runChild env) commands tool rest),
            snd (standardCommand (runChild env) commands tool rest))"
  using assms
  by (simp add: main_def argIs_def toolToken_def loadingLog_def split_beta Let_def)



subsection \<open>Arguments and the shell\<close>




subsection \<open>Loading failures\<close>

text \<open>
  Claim C5. When the commands file cannot be read, or is read but cannot be parsed,
  \<open>loadCommands\<close> calls \<open>logger.error\<close> and returns the empty table; it does not throw.
  Whenever the table that \<open>main\<close> has loaded is empty, whatever the command line, the run
  consists of the loading events, which are calls of the logger only, one logged and one
  printed error, and \<open>process.exit(1)\<close>: no help is printed, nothing is looked up and nothing
  is executed. The only runs that load no table are those of the subcommands
  \<open>install-alias\<close> and \<open>uninstall\<close>, which are handed over at once.
\<close>

theorem empty_table_is_fatal:
  "(\<forall>msg. readFileSync env (commandsFile env) = Inl msg \<longrightarrow>
       loadCommands env =
         (fst (getSharedDir env) @ [LoggerError (''Failed to load commands: '' @ msg)], []))
   \<and> (\<forall>contents msg.
         readFileSync env (commandsFile env) = Inr contents
         \<and> yamlLoadCommands env contents = Inl msg \<longrightarrow>
       loadCommands env =
         (fst (getSharedDir env) @ [LoggerError (''Failed to load commands: '' @ msg)], []))
   \<and> (snd (loadCommands env) = []
       \<and> \<not> argIs cliArgs 0 ''install-alias'' \<and> \<not> argIs cliArgs 0 ''uninstall'' \<longrightarrow>
       main env cliArgs =
         (loadingLog env @
            [LoggerError ''Failed to load command definitions'',
             ConsoleError ''Error: Failed to load command definitions''],
          Exit 1))
   \<and> list_all isLogging (loadingLog env)
   \<and> (argIs cliArgs 0 ''install-alias'' \<longrightarrow> main env cliArgs = ([ProgramParse], Delegated))
   \<and> (\<not> argIs cliArgs 0 ''install-alias'' \<and> argIs cliArgs 0 ''uninstall'' \<longrightarrow>
         main env cliArgs = ([UninstallVibes (drop 1 cliArgs)], Delegated))"
proof -
  have "list_all isLogging (fst (getSharedDir env))"
    by (simp add: getSharedDir_def)
  then have "list_all isLogging (loadingLog env)"
    by (simp add: loadingLog_def loadCommands_def loadNaturalLanguageCommands_def Let_def
          split: sum.splits option.splits)
  then show ?thesis
    by (simp add: loadCommands_def main_def loadingLog_def split_beta Let_def)
qed

text \<open>
  The theorem where no file can be read, where the file is read but \<open>yaml.load\<close> throws,
  and for the command line \<open>git status\<close> with nothing loaded.
\<close>

theorem empty_table_is_fatal_witness:
  "loadCommands missingEnv =
     ([LoggerError ''Could not find shared directory in: /app/shared, /shared, /app/node-package/shared'',
       LoggerDebug ''Falling back to embedded directory: /app/node-package/embedded'',
       LoggerError ''Failed to load commands: ENOENT: no such file or directory, open /app/node-package/embedded/commands.yaml''],
      [])
   \<and> loadCommands malformedEnv =
     ([LoggerDebug ''Found shared directory at /app/shared'',
       LoggerError ''Failed to load commands: bad indentation of a mapping entry''], [])
   \<and> main missingEnv [''git'', ''status''] =
     (loadingLog missingEnv @
        [LoggerError ''Failed to load command definitions'',
         ConsoleError ''Error: Failed to load command definitions''],
      Exit 1)"
proof -
  note fatal = empty_table_is_fatal [of missingEnv "[''git'', ''status'']"]
  from fatal missing_read [of "commandsFile missingEnv"]
  have "loadCommands missingEnv =
     (fst (getSharedDir missingEnv) @
        [LoggerError (''Failed to load commands: '' @
           ''ENOENT: no such file or directory, open '' @ commandsFile missingEnv)], [])"
    by blast
  then have load: "loadCommands missingEnv =
     ([LoggerError ''Could not find shared directory in: /app/shared, /shared, /app/node-package/shared'',
       LoggerDebug ''Falling back to embedded directory: /app/node-package/embedded'',
       LoggerError ''Failed to load commands: ENOENT: no such file or directory, open /app/node-package/embedded/commands.yaml''],
      [])"
    by (simp add: missing_getSharedDir missing_commandsFile)
  from empty_table_is_fatal [of malformedEnv "[]"]
    malformed_read [of "commandsFile malformedEnv"] malformed_yaml
  have "loadCommands malformedEnv =
     (fst (getSharedDir malformedEnv) @
        [LoggerError (''Failed to load commands: '' @ ''bad indentation of a mapping entry'')], [])"
    by blast
  then have load': "loadCommands malformedEnv =
     ([LoggerDebug ''Found shared directory at /app/shared'',
       LoggerError ''Failed to load commands: bad indentation of a mapping entry''], [])"
    by (simp add: malformed_getSharedDir)
  have "snd (loadCommands missingEnv) = []"
    by (simp add: load)
  moreover have "\<not> argIs [''git'', ''status''] 0 ''install-alias''"
    and "\<not> argIs [''git'', ''status''] 0 ''uninstall''"
    by (simp_all add: argIs_def)
  ultimately have "main missingEnv [''git'', ''status''] =
         (loadingLog missingEnv @
            [LoggerError ''Failed to load command definitions'',
             ConsoleError ''Error: Failed to load command definitions''],
          Exit 1)"
    using fatal by blast
  with load load' show ?thesis
    by blast
qed

subsection \<open>Descriptors without template and handler\<close>




subsection \<open>Aliases\<close>

text \<open>
  Claim C7, as the code has it. The command name is looked up as a key of the tool's table
  and nowhere else; the \<open>aliases\<close> field is never read. A second token that is not a key
  (nor a name inherited from \<open>Object.prototype\<close>, nor \<open>help\<close>) yields the unknown-command
  error with the tool's help and exit code 1, whatever the alias sets of the descriptors.
\<close>

theorem lookup_ignores_aliases:
  assumes "snd (loadCommands env) = commands" and "commands \<noteq> []"
    and "toolToken tool" and "getProp commands tool = Own toolCommands"
    and "name \<noteq> ''help''" and "getProp toolCommands name = Undefined"
  shows "main env (tool # name # args) =
           (loadingLog env @
              [LoggerError (''Unknown command: '' @ tool @ '' '' @ name),
               ConsoleError (''Error: Unknown command: '' @ tool @ '' '' @ name),
               PrintToolHelp tool toolCommands],
            Exit 1)"
  using main_standardCommand [OF assms(3,1,2), of "name # args"] assms(4,5,6)
  by (simp add: standardCommand_def)

text \<open>The theorem at \<open>st\<close>, which the descriptor \<open>status\<close> lists as an alias.\<close>

theorem lookup_ignores_aliases_witness:
  "map_option aliases (map_of demoGit ''status'') = Some (Some [''st''])
   \<and> main demoEnv [''git'', ''st'', ''--short''] =
       ([LoggerDebug ''Found shared directory at /app/shared'',
         LoggerDebug ''Found shared directory at /app/shared'',
         LoggerError ''Unknown command: git st'',
         ConsoleError ''Error: Unknown command: git st'',
         PrintToolHelp ''git'' demoGit],
        Exit 1)"
proof -
  have "main demoEnv (''git'' # ''st'' # [''--short'']) =
           (loadingLog demoEnv @
              [LoggerError (''Unknown command: '' @ ''git'' @ '' '' @ ''st''),
               ConsoleError (''Error: Unknown command: '' @ ''git'' @ '' '' @ ''st''),
               PrintToolHelp ''git'' demoGit],
            Exit 1)"
    by (rule lookup_ignores_aliases [OF _ demoCommands_nonempty _ demo_git _ demo_st])
       (simp_all add: demo_loadCommands toolToken_def)
  then show ?thesis
    by (simp add: demo_loadingLog demo_status_aliases)
qed

text \<open>
  Claim C7 as stated fails: \<open>st\<close> is an alias of \<open>git status\<close> in the table, and
  \<open>git st\<close> is answered with the unknown-command error.
\<close>

theorem alias_is_unknown_command_counterexample:
  "map_option aliases (map_of demoGit ''status'') = Some (Some [''st''])
   \<and> main demoEnv [''git'', ''st''] =
       ([LoggerDebug ''Found shared directory at /app/shared'',
         LoggerDebug ''Found shared directory at /app/shared'',
         LoggerError ''Unknown command: git st'',
         ConsoleError ''Error: Unknown command: git st'',
         PrintToolHelp ''git'' demoGit],
        Exit 1)"
  by (simp add: main_def argIs_def demo_loadCommands demo_loadNaturalLanguageCommands
        demoCommands_nonempty standardCommand_def demo_git demo_st demo_status_aliases)

subsection \<open>Help\<close>

text \<open>
  Claim C8 at the command line \<open>-h\<close>: \<open>main\<close> compares the first token with \<open>help\<close> and
  \<open>--help\<close> only, so \<open>-h\<close> is looked up as a tool, is not found, and the run ends with the
  unknown-tool error and exit code 1, where \<open>--help\<close> prints the general help and returns.
\<close>

theorem short_help_flag_is_unknown_tool:
  "main demoEnv [''-h''] =
     ([LoggerDebug ''Found shared directory at /app/shared'',
       LoggerDebug ''Found shared directory at /app/shared'',
       LoggerError ''Unknown tool or command: -h'',
       ConsoleError ''Error: Unknown tool or command: -h'',
       PrintGeneralHelp demoCommands],
      Exit 1)
   \<and> main demoEnv [''--help''] =
     ([LoggerDebug ''Found shared directory at /app/shared'',
       LoggerDebug ''Found shared directory at /app/shared'',
       PrintGeneralHelp demoCommands],
      Return)"
  by (simp add: main_def argIs_def demo_loadCommands demo_loadNaturalLanguageCommands
        demoCommands_nonempty standardCommand_def demo_dash_h)

text \<open>
  The rest of the claim holds in \<open>main\<close>, and \<open>parseCommandArgs\<close> does accept \<open>-h\<close>;
  without arguments it returns the help request together with an error.
\<close>

lemma main_general_help:
  assumes "snd (loadCommands env) = commands" and "commands \<noteq> []"
    and "cliArgs = [] \<or> hd cliArgs = ''help'' \<or> hd cliArgs = ''--help''"
  shows "main env cliArgs = (loadingLog env @ [PrintGeneralHelp commands], Return)"
  using assms
  by (cases cliArgs) (auto simp: main_def argIs_def loadingLog_def split_beta Let_def)

lemma main_tool_help:
  assumes "snd (loadCommands env) = commands" and "commands \<noteq> []"
    and "toolToken tool" and "getProp commands tool = Own toolCommands"
  shows "main env [tool] = (loadingLog env @ [PrintToolHelp tool toolCommands], Return)"
    and "main env (tool # ''help'' # remaining) = main env [tool]"
  using main_standardCommand [OF assms(3,1,2)] assms(4)
  by (simp_all add: standardCommand_def)

lemma parseCommandArgs_general_help:
  assumes "a0 = ''help'' \<or> a0 = ''--help'' \<or> a0 = ''-h''"
  shows "parseCommandArgs (a0 # remaining) commands = Some (noInfo\<lparr>info_showHelp := Some True\<rparr>)"
  using assms by (auto simp: parseCommandArgs_def)

lemma parseCommandArgs_no_args:
  "parseCommandArgs [] commands =
     Some (noInfo\<lparr>info_error := Some ''No command specified'', info_showHelp := Some True\<rparr>)"
  by (simp add: parseCommandArgs_def)

lemma parseCommandArgs_tool_help:
  assumes "toolName \<notin> set [''--version'', ''-v'', ''help'', ''--help'', ''-h'']"
    and "getProp commands toolName = Own toolCommands"
  shows "parseCommandArgs [toolName] commands =
           Some (noInfo\<lparr>info_toolHelp := Some toolName, info_commands := Some toolCommands\<rparr>)"
    and "parseCommandArgs (toolName # ''help'' # remaining) commands
           = parseCommandArgs [toolName] commands"
  using assms by (simp_all add: parseCommandArgs_def)

section \<open>Properties of the executor\<close>

text \<open>
  Claim C4. \<open>executeShellCommand\<close> returns a result of type \<open>shell\<close> on every command
  line and every behaviour of the child; it never throws. \<open>success\<close> is \<open>true\<close> exactly when
  the child exits with status 0. Every failure is captured: whenever \<open>success\<close> is \<open>false\<close>
  the result holds an error message and both outputs. When the shell cannot find or may not
  run the command's binary the child exits with a non-zero status (127 or 126) and \<open>error\<close>
  is the \<open>Command failed\<close> message with the shell's complaint; when the child ends without a
  status, or cannot be launched at all, \<open>error\<close> is the message of the error that \<open>execSync\<close>
  raised.
\<close>

theorem executeShellCommand_captures:
  "type (executeShellCommand run cmd) = ''shell''
   \<and> (success (executeShellCommand run cmd) = Some True
        \<or> success (executeShellCommand run cmd) = Some False)
   \<and> (success (executeShellCommand run cmd) = Some True
        \<longleftrightarrow> (\<exists>out err. run cmd = Exited 0 out err))
   \<and> (\<forall>msg. run cmd = LaunchFailure msg \<longrightarrow>
         success (executeShellCommand run cmd) = Some False
         \<and> error (executeShellCommand run cmd) = Some msg)
   \<and> (success (executeShellCommand run cmd) = Some False \<longrightarrow>
         (\<exists>msg. error (executeShellCommand run cmd) = Some msg)
         \<and> stdout (executeShellCommand run cmd) \<noteq> None
         \<and> stderr (executeShellCommand run cmd) \<noteq> None)
   \<and> (\<forall>status out err. run cmd = Exited status out err \<and> status \<noteq> 0 \<longrightarrow>
         executeShellCommand run cmd =
           \<lparr>type = ''shell'', success = Some False, stdout = Some out, stderr = Some err,
            error = Some (commandFailed cmd err)\<rparr>)
   \<and> (\<forall>msg out err. run cmd = Terminated msg out err \<longrightarrow>
         executeShellCommand run cmd =
           \<lparr>type = ''shell'', success = Some False, stdout = Some out, stderr = Some err,
            error = Some msg\<rparr>)
   \<and> (\<forall>msg. run cmd = LaunchFailure msg \<longrightarrow>
         executeShellCommand run cmd =
           \<lparr>type = ''shell'', success = Some False, stdout = Some [], stderr = Some [],
            error = Some msg\<rparr>)
   \<and> (\<forall>out err. run cmd = Exited 0 out err \<longrightarrow>
         executeShellCommand run cmd =
           \<lparr>type = ''shell'', success = Some True, stdout = Some out, stderr = None,
            error = None\<rparr>)"
  by (cases "run cmd") (auto simp: executeShellCommand_def execSync_def orEmpty_def)

text \<open>
  The theorem at a child that cannot be launched, at one that exits with 0, at a command
  whose binary is not found (status 127), at one that may not be executed (status 126) and
  at a child that is terminated.
\<close>

theorem executeShellCommand_captures_witness:
  "runChild missingEnv ''git status'' = LaunchFailure ''spawnSync /bin/sh ENOENT''
   \<and> success (executeShellCommand (runChild missingEnv) ''git status'') = Some False
   \<and> error (executeShellCommand (runChild missingEnv) ''git status'')
       = Some ''spawnSync /bin/sh ENOENT''
   \<and> runChild demoEnv ''git status'' = Exited 0 [] []
   \<and> success (executeShellCommand (runChild demoEnv) ''git status'') = Some True
   \<and> executeShellCommand (\<lambda>cmd. Exited 127 [] ''/bin/sh: 1: gti: not found'') ''gti status'' =
       \<lparr>type = ''shell'', success = Some False, stdout = Some [],
        stderr = Some ''/bin/sh: 1: gti: not found'',
        error = Some (''Command failed: gti status'' @ CHR 0x0A # ''/bin/sh: 1: gti: not found'')\<rparr>
   \<and> executeShellCommand (\<lambda>cmd. Exited 126 [] ''/bin/sh: 1: ./run.sh: Permission denied'')
         ''./run.sh'' =
       \<lparr>type = ''shell'', success = Some False, stdout = Some [],
        stderr = Some ''/bin/sh: 1: ./run.sh: Permission denied'',
        error = Some (''Command failed: ./run.sh'' @ CHR 0x0A #
                      ''/bin/sh: 1: ./run.sh: Permission denied'')\<rparr>
   \<and> error (executeShellCommand (\<lambda>cmd. Terminated ''spawnSync /bin/sh ENOBUFS'' ''partial'' [])
              ''git log'') = Some ''spawnSync /bin/sh ENOBUFS''"
proof -
  have launch: "runChild missingEnv ''git status'' = LaunchFailure ''spawnSync /bin/sh ENOENT''"
    by (simp add: missingEnv_def)
  have exited: "runChild demoEnv ''git status'' = Exited 0 [] []"
    by (simp add: demoEnv_def)
  from executeShellCommand_captures [of "runChild missingEnv" "''git status''"] launch
  have failed: "success (executeShellCommand (runChild missingEnv) ''git status'') = Some False
        \<and> error (executeShellCommand (runChild missingEnv) ''git status'')
            = Some ''spawnSync /bin/sh ENOENT''"
    by blast
  from executeShellCommand_captures [of "runChild demoEnv" "''git status''"] exited
  have ok: "success (executeShellCommand (runChild demoEnv) ''git status'') = Some True"
    by blast
  let ?notFound = "\<lambda>cmd :: string. Exited 127 [] ''/bin/sh: 1: gti: not found''"
  have "?notFound ''gti status'' = Exited 127 [] ''/bin/sh: 1: gti: not found'' \<and> (127 :: int) \<noteq> 0"
    by simp
  with executeShellCommand_captures [of ?notFound "''gti status''"]
  have "executeShellCommand ?notFound ''gti status'' =
       \<lparr>type = ''shell'', success = Some False, stdout = Some [],
        stderr = Some ''/bin/sh: 1: gti: not found'',
        error = Some (commandFailed ''gti status'' ''/bin/sh: 1: gti: not found'')\<rparr>"
    by blast
  then have notFound: "executeShellCommand ?notFound ''gti status'' =
       \<lparr>type = ''shell'', success = Some False, stdout = Some [],
        stderr = Some ''/bin/sh: 1: gti: not found'',
        error = Some (''Command failed: gti status'' @ CHR 0x0A # ''/bin/sh: 1: gti: not found'')\<rparr>"
    by (simp add: commandFailed_def)
  let ?denied = "\<lambda>cmd :: string. Exited 126 [] ''/bin/sh: 1: ./run.sh: Permission denied''"
  have "?denied ''./run.sh'' = Exited 126 [] ''/bin/sh: 1: ./run.sh: Permission denied''
        \<and> (126 :: int) \<noteq> 0"
    by simp
  with executeShellCommand_captures [of ?denied "''./run.sh''"]
  have "executeShellCommand ?denied ''./run.sh'' =
       \<lparr>type = ''shell'', success = Some False, stdout = Some [],
        stderr = Some ''/bin/sh: 1: ./run.sh: Permission denied'',
        error = Some (commandFailed ''./run.sh'' ''/bin/sh: 1: ./run.sh: Permission denied'')\<rparr>"
    by blast
  then have denied: "executeShellCommand ?denied ''./run.sh'' =
       \<lparr>type = ''shell'', success = Some False, stdout = Some [],
        stderr = Some ''/bin/sh: 1: ./run.sh: Permission denied'',
        error = Some (''Command failed: ./run.sh'' @ CHR 0x0A #
                      ''/bin/sh: 1: ./run.sh: Permission denied'')\<rparr>"
    by (simp add: commandFailed_def)
  let ?overflow = "\<lambda>cmd :: string. Terminated ''spawnSync /bin/sh ENOBUFS'' ''partial'' []"
  from executeShellCommand_captures [of ?overflow "''git log''"]
  have "executeShellCommand ?overflow ''git log'' =
       \<lparr>type = ''shell'', success = Some False, stdout = Some ''partial'', stderr = Some [],
        error = Some ''spawnSync /bin/sh ENOBUFS''\<rparr>"
    by blast
  then have overflow: "error (executeShellCommand ?overflow ''git log'')
                       = Some ''spawnSync /bin/sh ENOBUFS''"
    by simp
  from launch failed exited ok notFound denied overflow show ?thesis
    by blast
qed

section \<open>Where the formatter departs from positional substitution\<close>

text \<open>
  Claim C2 at the argument \<open>$&\<close>. \<open>String.prototype.replace\<close> expands replacement
  patterns in its second argument, so the placeholder is replaced by the matched text, which
  is the placeholder itself, and not by the argument; positional substitution gives
  \<open>echo $&\<close>.
\<close>

theorem replacement_pattern_keeps_placeholder:
  "formatCommand ''echo {0}'' [''$&''] = ''echo {0}''
   \<and> format_spec ''echo {0}'' [''$&''] = ''echo $&''"
  by (simp add: formatCommand_def replaceLoop.simps stringReplace_def placeholderAt_def)

text \<open>
  Claim C3 at an argument that reads like a later placeholder. Each round searches the
  whole running result, inserted text included, for the first occurrence of the
  placeholder; the second round finds \<open>{1}\<close> inside the argument inserted by the first.
  Positional substitution gives \<open>{1} x\<close>.
\<close>

theorem inserted_argument_is_matched_again:
  "formatCommand ''{0} {1}'' [''{1}'', ''x''] = ''x {1}''
   \<and> format_spec ''{0} {1}'' [''{1}'', ''x''] = ''{1} x''"
  by (simp add: formatCommand_def replaceLoop.simps stringReplace_def placeholderAt_def)

section \<open>The two formatters compared\<close>

text \<open>
  Claim C9 at a template with a brace inside a placeholder. The match is \<open>{{0}\<close>; the
  entry point searches the result for this text, while \<open>shared/utils.ts\<close> strips every
  brace and searches for \<open>{0}\<close>, so that one brace of the placeholder is left behind.
\<close>

theorem formatters_differ_on_inner_brace:
  "formatCommand ''echo {{0}'' [''x''] = ''echo x''
   \<and> formatCommand_utils ''echo {{0}'' [''x''] = ''echo {x''"
  by (simp add: formatCommand_def formatCommand_utils_def replaceLoop.simps
        replaceLoop_utils.simps stringReplace_def placeholderAt_def clean_def)

text \<open>The two agree on every template in which no match holds a second opening brace.\<close>

lemma replaceLoop_utils_steps:
  "replaceLoop_utils placeholders args i result
     = steps_utils (drop i placeholders) (drop i args) result"
proof (induction placeholders args i result rule: replaceLoop_utils.induct)
  case (1 placeholders args i result)
  show ?case
  proof (cases "i < length placeholders")
    case False
    then show ?thesis by (subst replaceLoop_utils.simps) simp
  next
    case True
    with 1 show ?thesis
      by (subst replaceLoop_utils.simps)
         (cases "i < length args"; simp add: Cons_nth_drop_Suc [symmetric])
  qed
qed

lemma steps_utils_agree:
  "\<forall>p \<in> set ps. ''{'' @ clean p @ ''}'' = p \<Longrightarrow> steps_utils ps as r = steps ps as r"
  by (induction ps as r rule: steps.induct) auto

lemma matchPlaceholders_shape:
  "p \<in> set (matchPlaceholders s) \<Longrightarrow>
     \<exists>body. p = CHR ''{'' # body @ [CHR ''}''] \<and> body \<noteq> [] \<and> CHR ''}'' \<notin> set body"
proof (induction s rule: matchPlaceholders.induct)
  case 1
  then show ?case by simp
next
  case (2 c cs)
  show ?case
  proof (cases "placeholderAt (c # cs)")
    case None
    with 2 show ?thesis by simp
  next
    case (Some pr)
    obtain q rest where pr: "pr = (q, rest)" by (cases pr)
    from 2(3) Some pr have "p = q \<or> p \<in> set (matchPlaceholders rest)" by simp
    then show ?thesis
    proof
      assume "p = q"
      with placeholderAt_SomeD(2) [of "c # cs" q rest] Some pr show ?thesis by simp
    next
      assume "p \<in> set (matchPlaceholders rest)"
      with 2(2) [OF Some pr [symmetric]] show ?thesis by simp
    qed
  qed
qed

lemma formatters_agree_without_inner_brace:
  assumes "\<forall>p \<in> set (matchPlaceholders template). CHR ''{'' \<notin> set (tl p)"
  shows "formatCommand_utils template args = formatCommand template args"
proof -
  have "''{'' @ clean p @ ''}'' = p" if "p \<in> set (matchPlaceholders template)" for p
  proof -
    from matchPlaceholders_shape [OF that] obtain body
      where p: "p = CHR ''{'' # body @ [CHR ''}'']" and "CHR ''}'' \<notin> set body"
      by blast
    moreover from assms that p have "CHR ''{'' \<notin> set body" by auto
    ultimately have "filter (\<lambda>c. c \<noteq> CHR ''{'' \<and> c \<noteq> CHR ''}'') body = body"
      by (auto simp: filter_id_conv)
    with p show ?thesis by (simp add: clean_def)
  qed
  then show ?thesis
    by (simp add: formatCommand_def formatCommand_utils_def replaceLoop_steps
          replaceLoop_utils_steps steps_utils_agree)
qed

end
